theory Spec2Isabelle
  imports Main "HOL-Library.AList"
begin

section \<open>The Mergington High School activities API (src/app.py)\<close>

text \<open>
  The program keeps one module-level dictionary, \<open>activities\<close>, from activity names to
  activity dictionaries, and serves three routes over it: \<open>root\<close>, \<open>get_activities\<close>
  and \<open>signup_for_activity\<close>. The dictionary is process-wide mutable state, so every
  handler below takes the registry and returns its outcome together with the registry as
  the handler leaves it.
\<close>

subsection \<open>Data\<close>

text \<open>
  An activity is the inner dictionary of the source, with its four fixed keys
  (\<open>"description"\<close>, \<open>"schedule"\<close>, \<open>"max_participants"\<close>, \<open>"participants"\<close>).
  \<open>max_participants\<close> is a Python integer, hence \<open>int\<close>.
\<close>

record activity =
  description :: string
  schedule :: string
  max_participants :: int
  participants :: "string list"

text \<open>
  The outer dictionary is an association list in insertion order. \<open>name in activities\<close>
  and \<open>activities[name]\<close> are \<open>map_of\<close>; a change made through the object that
  \<open>activities[name]\<close> returns is \<open>AList.map_entry\<close> at that key, which leaves the key
  and its position alone.
\<close>

type_synonym registry = "(string \<times> activity) list"

text \<open>\<open>HTTPException(status_code=..., detail=...)\<close>, the only exception the handlers raise.\<close>

datatype HTTPException = HTTPException (status_code: int) (detail: string)

text \<open>\<open>RedirectResponse(url=...)\<close>.\<close>

datatype RedirectResponse = RedirectResponse (url: string)

text \<open>
  What a handler does: it raises (\<open>Inl\<close>) or returns a value (\<open>Inr\<close>), and leaves a
  registry behind.
\<close>

type_synonym 'r outcome = "(HTTPException + 'r) \<times> registry"

subsection \<open>The seed registry\<close>

definition activities :: registry where
  "activities =
    [(''Chess Club'',
      \<lparr>description = ''Learn strategies and compete in chess tournaments'',
       schedule = ''Fridays, 3:30 PM - 5:00 PM'',
       max_participants = 12,
       participants = [''michael@mergington.edu'', ''daniel@mergington.edu'']\<rparr>),
     (''Programming Class'',
      \<lparr>description = ''Learn programming fundamentals and build software projects'',
       schedule = ''Tuesdays and Thursdays, 3:30 PM - 4:30 PM'',
       max_participants = 20,
       participants = [''emma@mergington.edu'', ''sophia@mergington.edu'']\<rparr>),
     (''Gym Class'',
      \<lparr>description = ''Physical education and sports activities'',
       schedule = ''Mondays, Wednesdays, Fridays, 2:00 PM - 3:00 PM'',
       max_participants = 30,
       participants = [''john@mergington.edu'', ''olivia@mergington.edu'']\<rparr>),
     (''Soccer Practice'',
      \<lparr>description = ''Team drills, conditioning, and scrimmages'',
       schedule = ''Tuesdays and Thursdays, 4:00 PM - 5:30 PM'',
       max_participants = 22,
       participants = []\<rparr>),
     (''Track & Field'',
      \<lparr>description = ''Sprint, distance, and field event training'',
       schedule = ''Mondays and Wednesdays, 3:30 PM - 5:00 PM'',
       max_participants = 28,
       participants = []\<rparr>),
     (''Drama Club'',
      \<lparr>description = ''Acting workshops and preparing stage performances'',
       schedule = ''Wednesdays, 3:30 PM - 5:00 PM'',
       max_participants = 18,
       participants = []\<rparr>),
     (''Art Studio'',
      \<lparr>description = ''Drawing, painting, and mixed-media projects'',
       schedule = ''Mondays, 3:30 PM - 5:00 PM'',
       max_participants = 16,
       participants = []\<rparr>),
     (''Debate Team'',
      \<lparr>description = ''Practice structured debates and public speaking'',
       schedule = ''Thursdays, 3:30 PM - 5:00 PM'',
       max_participants = 14,
       participants = []\<rparr>),
     (''Math Olympiad'',
      \<lparr>description = ''Problem-solving sessions and competition prep'',
       schedule = ''Tuesdays, 3:30 PM - 4:45 PM'',
       max_participants = 20,
       participants = []\<rparr>)]"

subsection \<open>The handlers\<close>

text \<open>\<open>GET /\<close>: redirects to the static front end.\<close>

definition root :: "registry \<Rightarrow> RedirectResponse outcome" where
  "root reg = (Inr (RedirectResponse ''/static/index.html''), reg)"

text \<open>\<open>GET /activities\<close>: returns the dictionary itself.\<close>

definition get_activities :: "registry \<Rightarrow> registry outcome" where
  "get_activities reg = (Inr reg, reg)"

text \<open>
  \<open>activity["participants"].append(email)\<close> on the object stored under a key.
\<close>

definition append_participant :: "string \<Rightarrow> activity \<Rightarrow> activity" where
  "append_participant email a = a\<lparr>participants := participants a @ [email]\<rparr>"

text \<open>
  \<open>POST /activities/{activity_name}/signup?email=...\<close>. The four steps are those of the
  source, in its order; each \<open>raise\<close> leaves the handler before anything was written.
  The returned value is the dictionary \<open>{"message": f"Signed up {email} for {activity_name}"}\<close>.
\<close>

definition signup_for_activity ::
  "registry \<Rightarrow> string \<Rightarrow> string \<Rightarrow> (string \<times> string) list outcome" where
  "signup_for_activity reg activity_name email =
    (case map_of reg activity_name of
       None \<Rightarrow> (Inl (HTTPException 404 ''Activity not found''), reg)
     | Some a \<Rightarrow>
         if email \<in> set (participants a) then
           (Inl (HTTPException 400 ''Student is already signed up''), reg)
         else if int (length (participants a)) \<ge> max_participants a then
           (Inl (HTTPException 400 ''Activity is full''), reg)
         else
           (Inr [(''message'', ''Signed up '' @ email @ '' for '' @ activity_name)],
            AList.map_entry activity_name (append_participant email) reg))"

subsection \<open>Requests served one after another\<close>

text \<open>
  The process serves requests in sequence against the one registry; an exception ends the
  request, not the process, so the next request sees the registry the previous one left.
\<close>

datatype request =
  GetRoot
  | GetActivities
  | PostSignup string string

fun handle :: "registry \<Rightarrow> request \<Rightarrow> registry" where
  "handle reg GetRoot = snd (root reg)"
| "handle reg GetActivities = snd (get_activities reg)"
| "handle reg (PostSignup activity_name email) = snd (signup_for_activity reg activity_name email)"

fun serve :: "registry \<Rightarrow> request list \<Rightarrow> registry" where
  "serve reg [] = reg"
| "serve reg (r # rs) = serve (handle reg r) rs"

subsection \<open>Properties of a registry\<close>

text \<open>\<open>len(activity["participants"]) <= activity["max_participants"]\<close>, for every entry.\<close>

definition capacity_ok :: "registry \<Rightarrow> bool" where
  "capacity_ok reg =
     list_all (\<lambda>p. int (length (participants (snd p))) \<le> max_participants (snd p)) reg"

text \<open>No email occurs twice in the participant list of an entry.\<close>

definition rosters_distinct :: "registry \<Rightarrow> bool" where
  "rosters_distinct reg = list_all (\<lambda>p. distinct (participants (snd p))) reg"

text \<open>
  Everything of the registry but the participant lists: the names in their order, each with
  its description, schedule and capacity.
\<close>

definition catalogue :: "registry \<Rightarrow> (string \<times> string \<times> string \<times> int) list" where
  "catalogue reg =
     map (\<lambda>p. (fst p, description (snd p), schedule (snd p), max_participants (snd p))) reg"

subsection \<open>A run that fills the Debate Team\<close>

text \<open>
  Fourteen distinct students sign up for the Debate Team of the seed registry, whose
  \<open>max_participants\<close> is 14.
\<close>

definition debate_roster :: "string list" where
  "debate_roster =
    [''s01@mergington.edu'', ''s02@mergington.edu'', ''s03@mergington.edu'',
     ''s04@mergington.edu'', ''s05@mergington.edu'', ''s06@mergington.edu'',
     ''s07@mergington.edu'', ''s08@mergington.edu'', ''s09@mergington.edu'',
     ''s10@mergington.edu'', ''s11@mergington.edu'', ''s12@mergington.edu'',
     ''s13@mergington.edu'', ''s14@mergington.edu'']"

definition debate_full :: registry where
  "debate_full = serve activities (map (PostSignup ''Debate Team'') debate_roster)"

section \<open>Auxiliary facts\<close>

subsection \<open>The filled Debate Team\<close>

lemma debate_full_entry:
  "map_of debate_full ''Debate Team'' =
     Some \<lparr>description = ''Practice structured debates and public speaking'',
            schedule = ''Thursdays, 3:30 PM - 5:00 PM'',
            max_participants = 14,
            participants = debate_roster\<rparr>"
  by (simp add: debate_full_def debate_roster_def activities_def signup_for_activity_def
      append_participant_def)

subsection \<open>A property of every entry survives a change of one entry that respects it\<close>

lemma list_all_map_entry:
  assumes "list_all (\<lambda>p. P (snd p)) reg"
    and "\<And>a. map_of reg k = Some a \<Longrightarrow> P a \<Longrightarrow> P (f a)"
  shows "list_all (\<lambda>p. P (snd p)) (AList.map_entry k f reg)"
  using assms by (induction reg) auto

subsection \<open>Capacity\<close>

lemma seed_capacity_ok: "capacity_ok activities"
  by (simp add: capacity_ok_def activities_def)

lemma signup_capacity_ok:
  "capacity_ok reg \<Longrightarrow> capacity_ok (snd (signup_for_activity reg n e))"
  unfolding capacity_ok_def signup_for_activity_def
  by (auto split: option.splits intro!: list_all_map_entry simp: append_participant_def)

lemma handle_capacity_ok: "capacity_ok reg \<Longrightarrow> capacity_ok (handle reg r)"
  by (cases r) (simp_all add: root_def get_activities_def signup_capacity_ok)

lemma serve_capacity_ok: "capacity_ok reg \<Longrightarrow> capacity_ok (serve reg rs)"
  by (induction rs arbitrary: reg) (simp_all add: handle_capacity_ok)

subsection \<open>Distinct rosters\<close>

lemma seed_rosters_distinct: "rosters_distinct activities"
  by (simp add: rosters_distinct_def activities_def)

lemma signup_rosters_distinct:
  "rosters_distinct reg \<Longrightarrow> rosters_distinct (snd (signup_for_activity reg n e))"
  unfolding rosters_distinct_def signup_for_activity_def
  by (auto split: option.splits intro!: list_all_map_entry simp: append_participant_def)

lemma handle_rosters_distinct: "rosters_distinct reg \<Longrightarrow> rosters_distinct (handle reg r)"
  by (cases r) (simp_all add: root_def get_activities_def signup_rosters_distinct)

lemma serve_rosters_distinct: "rosters_distinct reg \<Longrightarrow> rosters_distinct (serve reg rs)"
  by (induction rs arbitrary: reg) (simp_all add: handle_rosters_distinct)

subsection \<open>What a signup leaves alone\<close>

lemma map_of_signup_other:
  "m \<noteq> n \<Longrightarrow> map_of (snd (signup_for_activity reg n e)) m = map_of reg m"
  by (simp add: signup_for_activity_def AList.map_of_map_entry split: option.splits)

lemma nth_map_entry_other:
  "i < length reg \<Longrightarrow> fst (reg ! i) \<noteq> k \<Longrightarrow> AList.map_entry k f reg ! i = reg ! i"
proof (induction reg arbitrary: i)
  case Nil
  then show ?case by simp
next
  case (Cons p ps)
  show ?case
  proof (cases i)
    case 0
    with Cons.prems show ?thesis by simp
  next
    case (Suc j)
    with Cons show ?thesis by simp
  qed
qed

lemma nth_signup_other:
  "i < length reg \<Longrightarrow> fst (reg ! i) \<noteq> n \<Longrightarrow> snd (signup_for_activity reg n e) ! i = reg ! i"
  by (simp add: signup_for_activity_def nth_map_entry_other split: option.splits)

lemma catalogue_map_entry:
  "catalogue (AList.map_entry k (append_participant e) reg) = catalogue reg"
  by (induction reg) (auto simp: catalogue_def append_participant_def)

lemma catalogue_signup: "catalogue (snd (signup_for_activity reg n e)) = catalogue reg"
  by (simp add: signup_for_activity_def catalogue_map_entry split: option.splits)

lemma catalogue_handle: "catalogue (handle reg r) = catalogue reg"
  by (cases r) (simp_all add: root_def get_activities_def catalogue_signup)

lemma catalogue_serve: "catalogue (serve reg rs) = catalogue reg"
  by (induction rs arbitrary: reg) (simp_all add: catalogue_handle)

section \<open>The claims\<close>

text \<open>
  C1. Every activity of the registry has at most \<open>max_participants\<close> participants: in the
  seed registry, after any signup on a registry where it holds, and so after every sequence
  of requests served from the seed registry.
\<close>

theorem capacity_invariant:
  "capacity_ok activities \<and>
   (capacity_ok reg \<longrightarrow> capacity_ok (snd (signup_for_activity reg n e))) \<and>
   capacity_ok (serve activities rs)"
  by (simp add: seed_capacity_ok signup_capacity_ok serve_capacity_ok)

theorem capacity_invariant_witness:
  "capacity_ok activities \<and>
   capacity_ok (snd (signup_for_activity activities ''Soccer Practice'' ''ana@mergington.edu'')) \<and>
   capacity_ok (serve activities
      (map (PostSignup ''Debate Team'') debate_roster @
       [PostSignup ''Debate Team'' ''late@mergington.edu'']))"
  using capacity_invariant [of activities "''Soccer Practice''" "''ana@mergington.edu''"
      "map (PostSignup ''Debate Team'') debate_roster @
       [PostSignup ''Debate Team'' ''late@mergington.edu'']"]
  by simp

text \<open>
  C2. The checks of a signup come in the order existence, duplicate, capacity, and the first
  one that fails decides the outcome: an unknown name is NotFound whatever the email; an
  email already in the list is the duplicate Conflict whatever the capacity, in particular
  when the activity is also full; the capacity Conflict is raised only for an email that is
  not in the list; and with all three checks passed the call returns.
\<close>

theorem signup_check_order:
  "(map_of reg n = None \<longrightarrow>
      fst (signup_for_activity reg n e) = Inl (HTTPException 404 ''Activity not found'')) \<and>
   (map_of reg n = Some a \<and> e \<in> set (participants a) \<longrightarrow>
      fst (signup_for_activity reg n e) =
        Inl (HTTPException 400 ''Student is already signed up'')) \<and>
   (map_of reg n = Some a \<and> e \<in> set (participants a) \<and>
    max_participants a \<le> int (length (participants a)) \<longrightarrow>
      fst (signup_for_activity reg n e) =
        Inl (HTTPException 400 ''Student is already signed up'')) \<and>
   (map_of reg n = Some a \<and> e \<notin> set (participants a) \<and>
    max_participants a \<le> int (length (participants a)) \<longrightarrow>
      fst (signup_for_activity reg n e) = Inl (HTTPException 400 ''Activity is full'')) \<and>
   (map_of reg n = Some a \<and> e \<notin> set (participants a) \<and>
    int (length (participants a)) < max_participants a \<longrightarrow>
      (\<exists>msg. fst (signup_for_activity reg n e) = Inr msg))"
  by (simp add: signup_for_activity_def)

theorem signup_check_order_witness:
  "map_of debate_full ''Debate Team'' \<noteq> None \<and>
   ''s01@mergington.edu'' \<in> set (participants (the (map_of debate_full ''Debate Team''))) \<and>
   max_participants (the (map_of debate_full ''Debate Team''))
     \<le> int (length (participants (the (map_of debate_full ''Debate Team'')))) \<and>
   fst (signup_for_activity debate_full ''Debate Team'' ''s01@mergington.edu'') =
     Inl (HTTPException 400 ''Student is already signed up'')"
  using signup_check_order [of debate_full "''Debate Team''" "''s01@mergington.edu''"
      "the (map_of debate_full ''Debate Team'')"]
  by (simp add: debate_full_entry debate_roster_def)

text \<open>
  C3. With the activity present, the email not yet in its list and the list shorter than
  \<open>max_participants\<close>, a signup returns the message \<open>Signed up <email> for <activity_name>\<close>
  and the activity's list is the old one with the email added at its end. From the seed
  registry, where Soccer Practice has no participant, signing up
  \<open>ana@mergington.edu\<close> returns \<open>Signed up ana@mergington.edu for Soccer Practice\<close> and
  leaves Soccer Practice with that one participant.
\<close>

theorem signup_success:
  "(map_of reg n = Some a \<and> e \<notin> set (participants a) \<and>
    int (length (participants a)) < max_participants a \<longrightarrow>
      fst (signup_for_activity reg n e) =
        Inr [(''message'', ''Signed up '' @ e @ '' for '' @ n)] \<and>
      map_of (snd (signup_for_activity reg n e)) n =
        Some (a\<lparr>participants := participants a @ [e]\<rparr>)) \<and>
   map_option participants (map_of activities ''Soccer Practice'') = Some [] \<and>
   fst (signup_for_activity activities ''Soccer Practice'' ''ana@mergington.edu'') =
     Inr [(''message'', ''Signed up ana@mergington.edu for Soccer Practice'')] \<and>
   map_option participants
     (map_of (snd (signup_for_activity activities ''Soccer Practice'' ''ana@mergington.edu''))
        ''Soccer Practice'') = Some [''ana@mergington.edu'']"
proof -
  have "map_of reg n = Some a \<Longrightarrow> e \<notin> set (participants a) \<Longrightarrow>
      int (length (participants a)) < max_participants a \<Longrightarrow>
      fst (signup_for_activity reg n e) =
        Inr [(''message'', ''Signed up '' @ e @ '' for '' @ n)] \<and>
      map_of (snd (signup_for_activity reg n e)) n =
        Some (a\<lparr>participants := participants a @ [e]\<rparr>)"
    by (simp add: signup_for_activity_def AList.map_of_map_entry append_participant_def)
  moreover have "map_option participants (map_of activities ''Soccer Practice'') = Some []"
    by (simp add: activities_def)
  moreover have "signup_for_activity activities ''Soccer Practice'' ''ana@mergington.edu'' =
     (Inr [(''message'', ''Signed up ana@mergington.edu for Soccer Practice'')],
      AList.map_entry ''Soccer Practice'' (append_participant ''ana@mergington.edu'')
        activities)"
    by (simp add: signup_for_activity_def activities_def)
  moreover have "map_option participants
     (map_of (AList.map_entry ''Soccer Practice'' (append_participant ''ana@mergington.edu'')
        activities) ''Soccer Practice'') = Some [''ana@mergington.edu'']"
    by (simp add: activities_def append_participant_def)
  ultimately show ?thesis by simp
qed

theorem signup_success_witness:
  "map_option participants (map_of activities ''Chess Club'') =
     Some [''michael@mergington.edu'', ''daniel@mergington.edu''] \<and>
   map_option max_participants (map_of activities ''Chess Club'') = Some 12 \<and>
   fst (signup_for_activity activities ''Chess Club'' ''zoe@mergington.edu'') =
     Inr [(''message'', ''Signed up zoe@mergington.edu for Chess Club'')] \<and>
   map_option participants
     (map_of (snd (signup_for_activity activities ''Chess Club'' ''zoe@mergington.edu''))
        ''Chess Club'') =
     Some [''michael@mergington.edu'', ''daniel@mergington.edu'', ''zoe@mergington.edu'']"
proof -
  have entry: "map_of activities ''Chess Club'' =
      Some \<lparr>description = ''Learn strategies and compete in chess tournaments'',
             schedule = ''Fridays, 3:30 PM - 5:00 PM'',
             max_participants = 12,
             participants = [''michael@mergington.edu'', ''daniel@mergington.edu'']\<rparr>"
    by (simp add: activities_def)
  show ?thesis
    using signup_success [of activities "''Chess Club''"
        "\<lparr>description = ''Learn strategies and compete in chess tournaments'',
          schedule = ''Fridays, 3:30 PM - 5:00 PM'',
          max_participants = 12,
          participants = [''michael@mergington.edu'', ''daniel@mergington.edu'']\<rparr>"
        "''zoe@mergington.edu''"]
    by (simp add: entry)
qed

text \<open>
  C4. A signup that raises, whatever the exception, leaves the whole registry as it was.
\<close>

theorem signup_failure_atomic:
  "fst (signup_for_activity reg n e) = Inl x \<Longrightarrow> snd (signup_for_activity reg n e) = reg"
  by (auto simp: signup_for_activity_def split: option.splits if_splits)

theorem signup_failure_atomic_witness:
  "fst (signup_for_activity activities ''Robotics Club'' ''x@mergington.edu'') =
     Inl (HTTPException 404 ''Activity not found'') \<and>
   snd (signup_for_activity activities ''Robotics Club'' ''x@mergington.edu'') = activities"
proof -
  have f: "fst (signup_for_activity activities ''Robotics Club'' ''x@mergington.edu'') =
     Inl (HTTPException 404 ''Activity not found'')"
    by (simp add: signup_for_activity_def activities_def)
  from signup_failure_atomic [OF f] f show ?thesis by simp
qed

text \<open>
  C5. No email occurs twice in the participant list of an activity: in the seed registry,
  after any signup on a registry where it holds, and so after every sequence of requests
  served from the seed registry.
\<close>

theorem rosters_distinct_invariant:
  "rosters_distinct activities \<and>
   (rosters_distinct reg \<longrightarrow> rosters_distinct (snd (signup_for_activity reg n e))) \<and>
   rosters_distinct (serve activities rs)"
  by (simp add: seed_rosters_distinct signup_rosters_distinct serve_rosters_distinct)

theorem rosters_distinct_invariant_witness:
  "rosters_distinct activities \<and>
   rosters_distinct
     (snd (signup_for_activity activities ''Chess Club'' ''michael@mergington.edu'')) \<and>
   rosters_distinct (serve activities
      [PostSignup ''Chess Club'' ''zoe@mergington.edu'',
       PostSignup ''Chess Club'' ''zoe@mergington.edu''])"
  using rosters_distinct_invariant [of activities "''Chess Club''" "''michael@mergington.edu''"
      "[PostSignup ''Chess Club'' ''zoe@mergington.edu'',
        PostSignup ''Chess Club'' ''zoe@mergington.edu'']"]
  by simp

text \<open>
  C6. A signup that raises carries the status code and detail of its cause: 404 and
  \<open>Activity not found\<close> for an unknown name, 400 and \<open>Student is already signed up\<close> for an
  email already in the list, 400 and \<open>Activity is full\<close> (with a capital A) for a full
  activity; and it raises nothing else.
\<close>

theorem signup_failure_details:
  "(map_of reg n = None \<longrightarrow>
      (\<exists>x. fst (signup_for_activity reg n e) = Inl x \<and>
           status_code x = 404 \<and> detail x = ''Activity not found'')) \<and>
   (map_of reg n = Some a \<and> e \<in> set (participants a) \<longrightarrow>
      (\<exists>x. fst (signup_for_activity reg n e) = Inl x \<and>
           status_code x = 400 \<and> detail x = ''Student is already signed up'')) \<and>
   (map_of reg n = Some a \<and> e \<notin> set (participants a) \<and>
    max_participants a \<le> int (length (participants a)) \<longrightarrow>
      (\<exists>x. fst (signup_for_activity reg n e) = Inl x \<and>
           status_code x = 400 \<and> detail x = ''Activity is full'')) \<and>
   (\<forall>x. fst (signup_for_activity reg n e) = Inl x \<longrightarrow>
      (status_code x, detail x) \<in>
        {(404, ''Activity not found''), (400, ''Student is already signed up''),
         (400, ''Activity is full'')})"
  by (auto simp: signup_for_activity_def split: option.splits)

theorem signup_failure_details_witness:
  "map_of activities ''Robotics Club'' = None \<and>
   (\<exists>x. fst (signup_for_activity activities ''Robotics Club'' ''x@mergington.edu'') = Inl x \<and>
        status_code x = 404 \<and> detail x = ''Activity not found'') \<and>
   (\<exists>a. map_of activities ''Chess Club'' = Some a \<and>
        ''michael@mergington.edu'' \<in> set (participants a)) \<and>
   (\<exists>x. fst (signup_for_activity activities ''Chess Club'' ''michael@mergington.edu'') = Inl x \<and>
        status_code x = 400 \<and> detail x = ''Student is already signed up'') \<and>
   (\<exists>a. map_of debate_full ''Debate Team'' = Some a \<and>
        ''late@mergington.edu'' \<notin> set (participants a) \<and>
        max_participants a \<le> int (length (participants a))) \<and>
   (\<exists>x. fst (signup_for_activity debate_full ''Debate Team'' ''late@mergington.edu'') = Inl x \<and>
        status_code x = 400 \<and> detail x = ''Activity is full'')"
proof -
  have chess: "map_of activities ''Chess Club'' =
      Some \<lparr>description = ''Learn strategies and compete in chess tournaments'',
             schedule = ''Fridays, 3:30 PM - 5:00 PM'',
             max_participants = 12,
             participants = [''michael@mergington.edu'', ''daniel@mergington.edu'']\<rparr>"
    by (simp add: activities_def)
  have robotics: "map_of activities ''Robotics Club'' = None"
    by (simp add: activities_def)
  from signup_failure_details [of activities "''Robotics Club''" "''x@mergington.edu''"]
  have one: "\<exists>x. fst (signup_for_activity activities ''Robotics Club'' ''x@mergington.edu'') = Inl x \<and>
        status_code x = 404 \<and> detail x = ''Activity not found''"
    using robotics by blast
  from signup_failure_details [of activities "''Chess Club''" "''michael@mergington.edu''"
      "\<lparr>description = ''Learn strategies and compete in chess tournaments'',
        schedule = ''Fridays, 3:30 PM - 5:00 PM'',
        max_participants = 12,
        participants = [''michael@mergington.edu'', ''daniel@mergington.edu'']\<rparr>"]
  have two: "\<exists>x. fst (signup_for_activity activities ''Chess Club'' ''michael@mergington.edu'') = Inl x \<and>
        status_code x = 400 \<and> detail x = ''Student is already signed up''"
    using chess by simp
  from signup_failure_details [of debate_full "''Debate Team''" "''late@mergington.edu''"
      "\<lparr>description = ''Practice structured debates and public speaking'',
        schedule = ''Thursdays, 3:30 PM - 5:00 PM'',
        max_participants = 14,
        participants = debate_roster\<rparr>"]
  have three: "\<exists>x. fst (signup_for_activity debate_full ''Debate Team'' ''late@mergington.edu'') = Inl x \<and>
        status_code x = 400 \<and> detail x = ''Activity is full''"
    using debate_full_entry by (simp add: debate_roster_def)
  show ?thesis
    using one two three robotics chess debate_full_entry by (simp add: debate_roster_def)
qed

text \<open>
  At the filled Debate Team a fifteenth student is refused with the detail
  \<open>Activity is full\<close>, which is not the string \<open>activity is full\<close>.
\<close>

theorem signup_full_detail_counterexample:
  "map_of debate_full ''Debate Team'' \<noteq> None \<and>
   max_participants (the (map_of debate_full ''Debate Team'')) = 14 \<and>
   length (participants (the (map_of debate_full ''Debate Team''))) = 14 \<and>
   ''late@mergington.edu'' \<notin> set (participants (the (map_of debate_full ''Debate Team''))) \<and>
   fst (signup_for_activity debate_full ''Debate Team'' ''late@mergington.edu'') =
     Inl (HTTPException 400 ''Activity is full'') \<and>
   fst (signup_for_activity debate_full ''Debate Team'' ''late@mergington.edu'') \<noteq>
     Inl (HTTPException 400 ''activity is full'')"
  by (simp add: signup_for_activity_def debate_full_entry debate_roster_def)

text \<open>
  C7. A signup changes nothing but the participant list of the activity it names: the names,
  their order and every description, schedule and \<open>max_participants\<close> are as before, what is
  stored under any other name is as before, and every entry under another name is the same
  at its position. No sequence of requests adds, removes or resizes an activity.
\<close>

theorem signup_frame:
  "catalogue (snd (signup_for_activity reg n e)) = catalogue reg \<and>
   (\<forall>m. m \<noteq> n \<longrightarrow> map_of (snd (signup_for_activity reg n e)) m = map_of reg m) \<and>
   (\<forall>i<length reg. fst (reg ! i) \<noteq> n \<longrightarrow> snd (signup_for_activity reg n e) ! i = reg ! i) \<and>
   catalogue (serve reg rs) = catalogue reg"
  by (simp add: catalogue_signup map_of_signup_other nth_signup_other catalogue_serve)

theorem signup_frame_witness:
  "catalogue (snd (signup_for_activity activities ''Soccer Practice'' ''ana@mergington.edu'')) =
     catalogue activities \<and>
   ''Chess Club'' \<noteq> ''Soccer Practice'' \<and>
   map_of (snd (signup_for_activity activities ''Soccer Practice'' ''ana@mergington.edu''))
     ''Chess Club'' = map_of activities ''Chess Club'' \<and>
   (0::nat) < length activities \<and> fst (activities ! 0) \<noteq> ''Soccer Practice'' \<and>
   snd (signup_for_activity activities ''Soccer Practice'' ''ana@mergington.edu'') ! 0 =
     activities ! 0 \<and>
   catalogue (serve activities
     [PostSignup ''Soccer Practice'' ''ana@mergington.edu'', GetActivities, GetRoot]) =
     catalogue activities"
proof -
  note f = signup_frame [of activities "''Soccer Practice''" "''ana@mergington.edu''"
      "[PostSignup ''Soccer Practice'' ''ana@mergington.edu'', GetActivities, GetRoot]"]
  have ne: "''Chess Club'' \<noteq> ''Soccer Practice''" by simp
  have len: "(0::nat) < length activities" by (simp add: activities_def)
  have key: "fst (activities ! 0) \<noteq> ''Soccer Practice''" by (simp add: activities_def)
  have c1: "catalogue (snd (signup_for_activity activities ''Soccer Practice''
      ''ana@mergington.edu'')) = catalogue activities"
    using f by (rule conjunct1)
  have c2: "map_of (snd (signup_for_activity activities ''Soccer Practice''
      ''ana@mergington.edu'')) ''Chess Club'' = map_of activities ''Chess Club''"
    using f [THEN conjunct2, THEN conjunct1, rule_format, OF ne] .
  have c3: "snd (signup_for_activity activities ''Soccer Practice'' ''ana@mergington.edu'') ! 0 =
     activities ! 0"
    using f [THEN conjunct2, THEN conjunct2, THEN conjunct1, rule_format, OF len key] .
  have c4: "catalogue (serve activities
     [PostSignup ''Soccer Practice'' ''ana@mergington.edu'', GetActivities, GetRoot]) =
     catalogue activities"
    using f [THEN conjunct2, THEN conjunct2, THEN conjunct2] .
  from c1 ne c2 len key c3 c4 show ?thesis by (intro conjI)
qed

text \<open>
  C8. \<open>get_activities\<close> returns the whole registry as it stands, raises nothing and leaves
  the registry as it was; after any requests served from the seed registry it returns the
  registry those requests left.
\<close>

theorem get_activities_read_only:
  "fst (get_activities reg) = Inr reg \<and>
   (\<forall>x. fst (get_activities reg) \<noteq> Inl x) \<and>
   snd (get_activities reg) = reg \<and>
   fst (get_activities (serve activities rs)) = Inr (serve activities rs)"
  by (simp add: get_activities_def)

text \<open>
  C9. The outcome of a signup and the entry it leaves under the activity's name depend only
  on what the registry holds under that name: two registries that agree there give the same
  result and the same entry. In particular an email that is on the list of another activity
  signs up all the same: the call returns the confirmation message, the email is added at the
  end of the named activity's list, and the other activity keeps its entry.
\<close>

theorem signup_depends_on_entry_only:
  "(map_of reg1 n = map_of reg2 n \<longrightarrow>
      fst (signup_for_activity reg1 n e) = fst (signup_for_activity reg2 n e) \<and>
      map_of (snd (signup_for_activity reg1 n e)) n =
        map_of (snd (signup_for_activity reg2 n e)) n) \<and>
   (map_of reg1 n = Some a \<and> e \<notin> set (participants a) \<and>
    int (length (participants a)) < max_participants a \<and>
    m \<noteq> n \<and> map_of reg1 m = Some b \<and> e \<in> set (participants b) \<longrightarrow>
      fst (signup_for_activity reg1 n e) =
        Inr [(''message'', ''Signed up '' @ e @ '' for '' @ n)] \<and>
      map_of (snd (signup_for_activity reg1 n e)) n =
        Some (a\<lparr>participants := participants a @ [e]\<rparr>) \<and>
      map_of (snd (signup_for_activity reg1 n e)) m = Some b)"
proof -
  have one: "fst (signup_for_activity reg1 n e) = fst (signup_for_activity reg2 n e) \<and>
      map_of (snd (signup_for_activity reg1 n e)) n =
        map_of (snd (signup_for_activity reg2 n e)) n"
    if eq: "map_of reg1 n = map_of reg2 n"
  proof (cases "map_of reg2 n")
    case None
    with eq show ?thesis by (simp add: signup_for_activity_def)
  next
    case (Some c)
    with eq show ?thesis by (simp add: signup_for_activity_def AList.map_of_map_entry)
  qed
  have two: "fst (signup_for_activity reg1 n e) =
        Inr [(''message'', ''Signed up '' @ e @ '' for '' @ n)] \<and>
      map_of (snd (signup_for_activity reg1 n e)) n =
        Some (a\<lparr>participants := participants a @ [e]\<rparr>)"
    if "map_of reg1 n = Some a" "e \<notin> set (participants a)"
      "int (length (participants a)) < max_participants a"
    using that
    by (simp add: signup_for_activity_def AList.map_of_map_entry append_participant_def)
  have three: "map_of (snd (signup_for_activity reg1 n e)) m = Some b"
    if "m \<noteq> n" "map_of reg1 m = Some b"
    using that by (simp add: map_of_signup_other)
  from one two three show ?thesis by blast
qed

theorem signup_depends_on_entry_only_witness:
  "map_of activities ''Soccer Practice'' =
     map_of (snd (signup_for_activity activities ''Chess Club'' ''zoe@mergington.edu''))
       ''Soccer Practice'' \<and>
   fst (signup_for_activity activities ''Soccer Practice'' ''michael@mergington.edu'') =
     fst (signup_for_activity
       (snd (signup_for_activity activities ''Chess Club'' ''zoe@mergington.edu''))
       ''Soccer Practice'' ''michael@mergington.edu'') \<and>
   map_of (snd (signup_for_activity activities ''Soccer Practice'' ''michael@mergington.edu''))
     ''Soccer Practice'' =
     map_of (snd (signup_for_activity
       (snd (signup_for_activity activities ''Chess Club'' ''zoe@mergington.edu''))
       ''Soccer Practice'' ''michael@mergington.edu'')) ''Soccer Practice'' \<and>
   ''michael@mergington.edu'' \<in> set (participants (the (map_of activities ''Chess Club''))) \<and>
   fst (signup_for_activity activities ''Soccer Practice'' ''michael@mergington.edu'') =
     Inr [(''message'', ''Signed up michael@mergington.edu for Soccer Practice'')] \<and>
   map_option participants
     (map_of (snd (signup_for_activity activities ''Soccer Practice'' ''michael@mergington.edu''))
        ''Soccer Practice'') = Some [''michael@mergington.edu''] \<and>
   map_option participants
     (map_of (snd (signup_for_activity activities ''Soccer Practice'' ''michael@mergington.edu''))
        ''Chess Club'') = Some [''michael@mergington.edu'', ''daniel@mergington.edu'']"
proof -
  have ne: "''Soccer Practice'' \<noteq> ''Chess Club''" by simp
  have chess: "map_of activities ''Chess Club'' =
      Some \<lparr>description = ''Learn strategies and compete in chess tournaments'',
             schedule = ''Fridays, 3:30 PM - 5:00 PM'',
             max_participants = 12,
             participants = [''michael@mergington.edu'', ''daniel@mergington.edu'']\<rparr>"
    by (simp add: activities_def)
  have soccer: "map_of activities ''Soccer Practice'' =
      Some \<lparr>description = ''Team drills, conditioning, and scrimmages'',
             schedule = ''Tuesdays and Thursdays, 4:00 PM - 5:30 PM'',
             max_participants = 22,
             participants = []\<rparr>"
    by (simp add: activities_def)
  have eq: "map_of activities ''Soccer Practice'' =
     map_of (snd (signup_for_activity activities ''Chess Club'' ''zoe@mergington.edu''))
       ''Soccer Practice''"
    using map_of_signup_other [OF ne, of activities "''zoe@mergington.edu''"] by simp
  note t = signup_depends_on_entry_only
    [where ?reg1.0 = activities and n = "''Soccer Practice''"
      and ?reg2.0 = "snd (signup_for_activity activities ''Chess Club'' ''zoe@mergington.edu'')"
      and e = "''michael@mergington.edu''"
      and a = "\<lparr>description = ''Team drills, conditioning, and scrimmages'',
             schedule = ''Tuesdays and Thursdays, 4:00 PM - 5:30 PM'',
             max_participants = 22,
             participants = []\<rparr>"
      and m = "''Chess Club''"
      and b = "\<lparr>description = ''Learn strategies and compete in chess tournaments'',
             schedule = ''Fridays, 3:30 PM - 5:00 PM'',
             max_participants = 12,
             participants = [''michael@mergington.edu'', ''daniel@mergington.edu'']\<rparr>"]
  have same: "fst (signup_for_activity activities ''Soccer Practice'' ''michael@mergington.edu'') =
     fst (signup_for_activity
       (snd (signup_for_activity activities ''Chess Club'' ''zoe@mergington.edu''))
       ''Soccer Practice'' ''michael@mergington.edu'') \<and>
   map_of (snd (signup_for_activity activities ''Soccer Practice'' ''michael@mergington.edu''))
     ''Soccer Practice'' =
     map_of (snd (signup_for_activity
       (snd (signup_for_activity activities ''Chess Club'' ''zoe@mergington.edu''))
       ''Soccer Practice'' ''michael@mergington.edu'')) ''Soccer Practice''"
    using t [THEN conjunct1, rule_format, OF eq] .
  have mem: "''michael@mergington.edu'' \<in> set (participants (the (map_of activities ''Chess Club'')))"
    by (simp add: chess)
  have enrolled: "fst (signup_for_activity activities ''Soccer Practice'' ''michael@mergington.edu'') =
       Inr [(''message'', ''Signed up michael@mergington.edu for Soccer Practice'')] \<and>
     map_option participants
       (map_of (snd (signup_for_activity activities ''Soccer Practice''
          ''michael@mergington.edu'')) ''Soccer Practice'') = Some [''michael@mergington.edu''] \<and>
     map_option participants
       (map_of (snd (signup_for_activity activities ''Soccer Practice''
          ''michael@mergington.edu'')) ''Chess Club'') =
       Some [''michael@mergington.edu'', ''daniel@mergington.edu'']"
    using t [THEN conjunct2] soccer chess by simp
  from same have s1: "fst (signup_for_activity activities ''Soccer Practice'' ''michael@mergington.edu'') =
     fst (signup_for_activity
       (snd (signup_for_activity activities ''Chess Club'' ''zoe@mergington.edu''))
       ''Soccer Practice'' ''michael@mergington.edu'')"
    by (rule conjunct1)
  from same have s2: "map_of (snd (signup_for_activity activities ''Soccer Practice'' ''michael@mergington.edu''))
     ''Soccer Practice'' =
     map_of (snd (signup_for_activity
       (snd (signup_for_activity activities ''Chess Club'' ''zoe@mergington.edu''))
       ''Soccer Practice'' ''michael@mergington.edu'')) ''Soccer Practice''"
    by (rule conjunct2)
  from enrolled
  have e1: "fst (signup_for_activity activities ''Soccer Practice'' ''michael@mergington.edu'') =
       Inr [(''message'', ''Signed up michael@mergington.edu for Soccer Practice'')]"
    by (rule conjunct1)
  from enrolled
  have e2: "map_option participants
       (map_of (snd (signup_for_activity activities ''Soccer Practice''
          ''michael@mergington.edu'')) ''Soccer Practice'') = Some [''michael@mergington.edu'']"
    by (rule conjunct2 [THEN conjunct1])
  from enrolled
  have e3: "map_option participants
       (map_of (snd (signup_for_activity activities ''Soccer Practice''
          ''michael@mergington.edu'')) ''Chess Club'') =
       Some [''michael@mergington.edu'', ''daniel@mergington.edu'']"
    by (rule conjunct2 [THEN conjunct2])
  from eq s1 s2 mem e1 e2 e3 show ?thesis by (intro conjI)
qed

text \<open>
  C10. A signup puts no condition on the text of the email: any string that is not on the
  list of an activity with room left is accepted and added to the end of the list as it is,
  the empty string and a string that is no email address included.
\<close>

theorem signup_any_email_text:
  "map_of reg n = Some a \<Longrightarrow> e \<notin> set (participants a) \<Longrightarrow>
   int (length (participants a)) < max_participants a \<Longrightarrow>
     (\<exists>msg. fst (signup_for_activity reg n e) = Inr msg) \<and>
     map_option participants (map_of (snd (signup_for_activity reg n e)) n) =
       Some (participants a @ [e])"
  by (simp add: signup_for_activity_def AList.map_of_map_entry append_participant_def)

theorem signup_any_email_text_witness:
  "map_option participants (map_of activities ''Soccer Practice'') = Some [] \<and>
   map_option max_participants (map_of activities ''Soccer Practice'') = Some 22 \<and>
   (\<exists>msg. fst (signup_for_activity activities ''Soccer Practice'' '''') = Inr msg) \<and>
   map_option participants
     (map_of (snd (signup_for_activity activities ''Soccer Practice'' '''')) ''Soccer Practice'') =
     Some [''''] \<and>
   (\<exists>msg. fst (signup_for_activity activities ''Soccer Practice'' ''not an email'') = Inr msg) \<and>
   map_option participants
     (map_of (snd (signup_for_activity activities ''Soccer Practice'' ''not an email''))
        ''Soccer Practice'') = Some [''not an email'']"
proof -
  have soccer: "map_of activities ''Soccer Practice'' =
      Some \<lparr>description = ''Team drills, conditioning, and scrimmages'',
             schedule = ''Tuesdays and Thursdays, 4:00 PM - 5:30 PM'',
             max_participants = 22,
             participants = []\<rparr>"
    by (simp add: activities_def)
  have empty: "(\<exists>msg. fst (signup_for_activity activities ''Soccer Practice'' '''') = Inr msg) \<and>
     map_option participants
       (map_of (snd (signup_for_activity activities ''Soccer Practice'' '''')) ''Soccer Practice'') =
       Some ['''']"
    using signup_any_email_text [OF soccer, of "''''"] by simp
  have odd: "(\<exists>msg. fst (signup_for_activity activities ''Soccer Practice'' ''not an email'') =
       Inr msg) \<and>
     map_option participants
       (map_of (snd (signup_for_activity activities ''Soccer Practice'' ''not an email''))
          ''Soccer Practice'') = Some [''not an email'']"
    using signup_any_email_text [OF soccer, of "''not an email''"] by simp
  from empty odd show ?thesis by (simp add: soccer)
qed

end
